theory Spec2Isabelle
  imports Complex_Main
begin

section \<open>Module constants and frame/millisecond conversion\<close>

text \<open>
  The program is a single Python module, \<^verbatim>\<open>flappybird.py\<close>. Python floats are
  modelled as \<^typ>\<open>real\<close> (exact arithmetic, no rounding), Python's unbounded integers
  as \<^typ>\<open>int\<close>. Rendering (blits, the score text, the display flip) changes no
  simulation variable and is left out.
\<close>

definition FPS :: real where
  "FPS = 60"

definition ANIMATION_SPEED :: real where
  "ANIMATION_SPEED = 0.18"

definition WIN_WIDTH :: int where
  "WIN_WIDTH = 284 * 2"

definition WIN_HEIGHT :: int where
  "WIN_HEIGHT = 512"

text \<open>\<^verbatim>\<open>frames_to_msec(frames, fps=FPS)\<close>: \<^verbatim>\<open>1000.0 * frames / fps\<close>. Every caller
  in the module takes the default \<^verbatim>\<open>fps\<close>; the model passes it explicitly.\<close>

definition frames_to_msec :: "real \<Rightarrow> real \<Rightarrow> real" where
  "frames_to_msec frames fps = 1000 * frames / fps"

text \<open>\<^verbatim>\<open>msec_to_frames(milliseconds, fps=FPS)\<close>: \<^verbatim>\<open>fps * milliseconds / 1000.0\<close>.\<close>

definition msec_to_frames :: "real \<Rightarrow> real \<Rightarrow> real" where
  "msec_to_frames milliseconds fps = fps * milliseconds / 1000"

text \<open>Python's \<^verbatim>\<open>int(x)\<close> on a float truncates towards zero.\<close>

definition py_int :: "real \<Rightarrow> int" where
  "py_int v = (if v < 0 then \<lceil>v\<rceil> else \<lfloor>v\<rfloor>)"

text \<open>Python's \<^verbatim>\<open>a % b\<close> on floats: the remainder takes the sign of \<^verbatim>\<open>b\<close>.\<close>

definition py_mod :: "real \<Rightarrow> real \<Rightarrow> real" where
  "py_mod a b = a - real_of_int \<lfloor>a / b\<rfloor> * b"


section \<open>The bird\<close>

definition Bird_WIDTH :: int where
  "Bird_WIDTH = 32"

definition Bird_HEIGHT :: int where
  "Bird_HEIGHT = 32"

definition SINK_SPEED :: real where
  "SINK_SPEED = 0.18"

definition CLIMB_SPEED :: real where
  "CLIMB_SPEED = 0.3"

definition CLIMB_DURATION :: real where
  "CLIMB_DURATION = 333.3"

text \<open>Class \<^verbatim>\<open>Bird\<close>: the attributes \<^verbatim>\<open>x\<close>, \<^verbatim>\<open>y\<close> and \<^verbatim>\<open>msec_to_climb\<close>. The two
  wing images and their masks are read only by the display and by the mask collision
  test, which is a parameter of the loop below.\<close>

record Bird =
  bird_x :: real
  bird_y :: real
  msec_to_climb :: real

text \<open>\<^verbatim>\<open>Bird.update(self, delta_frames=1)\<close>.\<close>

definition Bird_update :: "real \<Rightarrow> Bird \<Rightarrow> Bird" where
  "Bird_update delta_frames b =
     (if msec_to_climb b > 0 then
        (let frac_climb_done = 1 - msec_to_climb b / CLIMB_DURATION in
         b\<lparr>bird_y := bird_y b -
                 CLIMB_SPEED * frames_to_msec delta_frames FPS *
                   (1 - cos (frac_climb_done * pi)),
           msec_to_climb := msec_to_climb b - frames_to_msec delta_frames FPS\<rparr>)
      else
        b\<lparr>bird_y := bird_y b + SINK_SPEED * frames_to_msec delta_frames FPS\<rparr>)"


section \<open>Pipe pairs\<close>

definition PipePair_WIDTH :: int where
  "PipePair_WIDTH = 80"

definition PIECE_HEIGHT :: int where
  "PIECE_HEIGHT = 32"

definition ADD_INTERVAL :: real where
  "ADD_INTERVAL = 3000"

text \<open>Class \<^verbatim>\<open>PipePair\<close>: the attributes \<^verbatim>\<open>x\<close>, \<^verbatim>\<open>score_counted\<close>, \<^verbatim>\<open>top_pieces\<close>
  and \<^verbatim>\<open>bottom_pieces\<close>. The image and its mask are drawn once in the constructor
  from the two piece counts and never change afterwards.\<close>

record PipePair =
  pipe_x :: real
  score_counted :: bool
  top_pieces :: int
  bottom_pieces :: int

text \<open>The local \<^verbatim>\<open>total_pipe_body_pieces\<close> of the constructor: a float division
  truncated by \<^verbatim>\<open>int\<close>.\<close>

definition total_pipe_body_pieces :: int where
  "total_pipe_body_pieces =
     py_int (real_of_int (WIN_HEIGHT - 3 * Bird_HEIGHT - 3 * PIECE_HEIGHT) /
             real_of_int PIECE_HEIGHT)"

text \<open>\<^verbatim>\<open>random.randint(a, b)\<close> returns some integer of the closed range from \<^verbatim>\<open>a\<close> to
  \<^verbatim>\<open>b\<close>. The generator's entropy is the argument \<open>seed\<close>, so that every draw of the
  range is the value at some seed. (The library raises on an empty range; the only call
  is on the range from 1 to \<^const>\<open>total_pipe_body_pieces\<close>, which is 1 to 10.)\<close>

definition randint :: "int \<Rightarrow> int \<Rightarrow> nat \<Rightarrow> int" where
  "randint a b seed = a + int (seed mod nat (b - a + 1))"

text \<open>\<^verbatim>\<open>PipePair.__init__\<close> up to the two assignments of the body piece counts, before the
  pipes are drawn.\<close>

definition PipePair_body_pieces :: "nat \<Rightarrow> PipePair" where
  "PipePair_body_pieces seed =
     (let bottom = randint 1 total_pipe_body_pieces seed in
      \<lparr>pipe_x = real_of_int (WIN_WIDTH - 1),
       score_counted = False,
       top_pieces = total_pipe_body_pieces - bottom,
       bottom_pieces = bottom\<rparr>)"

text \<open>\<^verbatim>\<open>PipePair.__init__\<close> as a whole: after drawing, both counts are incremented for
  the end pieces.\<close>

definition PipePair_init :: "nat \<Rightarrow> PipePair" where
  "PipePair_init seed =
     (let p = PipePair_body_pieces seed in
      p\<lparr>top_pieces := top_pieces p + 1, bottom_pieces := bottom_pieces p + 1\<rparr>)"

definition top_height_px :: "PipePair \<Rightarrow> int" where
  "top_height_px p = top_pieces p * PIECE_HEIGHT"

definition bottom_height_px :: "PipePair \<Rightarrow> int" where
  "bottom_height_px p = bottom_pieces p * PIECE_HEIGHT"

definition visible :: "PipePair \<Rightarrow> bool" where
  "visible p \<longleftrightarrow> - real_of_int PipePair_WIDTH < pipe_x p \<and> pipe_x p < real_of_int WIN_WIDTH"

text \<open>\<^verbatim>\<open>PipePair.update(self, delta_frames=1)\<close>.\<close>

definition PipePair_update :: "real \<Rightarrow> PipePair \<Rightarrow> PipePair" where
  "PipePair_update delta_frames p =
     p\<lparr>pipe_x := pipe_x p - ANIMATION_SPEED * frames_to_msec delta_frames FPS\<rparr>"


section \<open>The game loop\<close>

text \<open>The events the loop tells apart, as \<^verbatim>\<open>pygame.event.get()\<close> delivers them: the
  event type, and the key of a \<^verbatim>\<open>KEYUP\<close> event.\<close>

datatype key = K_ESCAPE | K_PAUSE | K_p | K_UP | K_RETURN | K_SPACE | K_OTHER

datatype event = QUIT | KEYUP key | MOUSEBUTTONUP | OTHER_EVENT

text \<open>The three tests of the \<^verbatim>\<open>if\<close>/\<^verbatim>\<open>elif\<close> chain over an event \<^verbatim>\<open>e\<close>.\<close>

definition is_quit :: "event \<Rightarrow> bool" where
  "is_quit e \<longleftrightarrow> e = QUIT \<or> e = KEYUP K_ESCAPE"

definition is_pause :: "event \<Rightarrow> bool" where
  "is_pause e \<longleftrightarrow> e = KEYUP K_PAUSE \<or> e = KEYUP K_p"

definition is_climb :: "event \<Rightarrow> bool" where
  "is_climb e \<longleftrightarrow> e = MOUSEBUTTONUP \<or> e = KEYUP K_UP \<or> e = KEYUP K_RETURN \<or> e = KEYUP K_SPACE"

text \<open>The local variables of \<^verbatim>\<open>main\<close> that the loop reads and writes. The source's
  \<^verbatim>\<open>done\<close> is the field \<open>done_flag\<close>.\<close>

record game =
  bird :: Bird
  pipes :: "PipePair list"
  frame_clock :: int
  score :: int
  done_flag :: bool
  paused :: bool

text \<open>What one iteration takes from outside: the events of \<^verbatim>\<open>pygame.event.get()\<close>, the
  entropy of the one possible \<^verbatim>\<open>randint\<close> call, and the outcome of
  \<^verbatim>\<open>pygame.sprite.collide_mask\<close> (it reads the pipe's mask and position and the bird's
  position and current wing mask, which follows the wall clock).\<close>

record tick_input =
  events :: "event list"
  entropy :: nat
  collide_mask :: "PipePair \<Rightarrow> Bird \<Rightarrow> bool"

text \<open>The state before the loop: \<^verbatim>\<open>Bird(50, int(WIN_HEIGHT/2 - Bird.HEIGHT/2), 2, ...)\<close>,
  an empty deque, both counters zero, \<^verbatim>\<open>done = paused = False\<close>.\<close>

definition initial_game :: game where
  "initial_game =
     \<lparr>bird = \<lparr>bird_x = 50,
              bird_y = real_of_int (py_int (real_of_int WIN_HEIGHT / 2 - real_of_int Bird_HEIGHT / 2)),
              msec_to_climb = 2\<rparr>,
      pipes = [],
      frame_clock = 0,
      score = 0,
      done_flag = False,
      paused = False\<rparr>"

text \<open>\<^verbatim>\<open>if not (paused or frame_clock % msec_to_frames(PipePair.ADD_INTERVAL))\<close>: a new
  pipe pair is appended to the deque.\<close>

definition add_pipe :: "nat \<Rightarrow> game \<Rightarrow> game" where
  "add_pipe sd g =
     (if \<not> (paused g \<or>
             py_mod (real_of_int (frame_clock g)) (msec_to_frames ADD_INTERVAL FPS) \<noteq> 0)
      then g\<lparr>pipes := pipes g @ [PipePair_init sd]\<rparr>
      else g)"

text \<open>The \<^verbatim>\<open>for e in pygame.event.get()\<close> loop; \<^verbatim>\<open>break\<close> leaves it at the first quit
  event, so the events behind it are not looked at.\<close>

fun handle_events :: "event list \<Rightarrow> game \<Rightarrow> game" where
  "handle_events [] g = g"
| "handle_events (e # es) g =
     (if is_quit e then g\<lparr>done_flag := True\<rparr>
      else if is_pause e then handle_events es (g\<lparr>paused := \<not> paused g\<rparr>)
      else if is_climb e then
        handle_events es (g\<lparr>bird := (bird g)\<lparr>msec_to_climb := CLIMB_DURATION\<rparr>\<rparr>)
      else handle_events es g)"

text \<open>The first two steps of an iteration: the spawn test, then the events.\<close>

definition after_events :: "tick_input \<Rightarrow> game \<Rightarrow> game" where
  "after_events inp g = handle_events (events inp) (add_pipe (entropy inp) g)"

text \<open>The condition of the collision test:
  \<^verbatim>\<open>pipe_collision or 0 >= bird.y or bird.y >= WIN_HEIGHT - Bird.HEIGHT\<close>.\<close>

definition hits :: "(PipePair \<Rightarrow> Bird \<Rightarrow> bool) \<Rightarrow> PipePair list \<Rightarrow> Bird \<Rightarrow> bool" where
  "hits cm ps b \<longleftrightarrow>
     (let pipe_collision = list_ex (\<lambda>p. cm p b) ps in
      pipe_collision \<or> 0 \<ge> bird_y b \<or> bird_y b \<ge> real_of_int (WIN_HEIGHT - Bird_HEIGHT))"

definition check_collisions :: "(PipePair \<Rightarrow> Bird \<Rightarrow> bool) \<Rightarrow> game \<Rightarrow> game" where
  "check_collisions cm g = (if hits cm (pipes g) (bird g) then g\<lparr>done_flag := True\<rparr> else g)"

text \<open>\<^verbatim>\<open>while pipes and not pipes[0].visible: pipes.popleft()\<close>.\<close>

fun drop_invisible :: "PipePair list \<Rightarrow> PipePair list" where
  "drop_invisible [] = []"
| "drop_invisible (p # ps) = (if \<not> visible p then drop_invisible ps else p # ps)"

text \<open>The test of the scoring loop:
  \<^verbatim>\<open>p.x + PipePair.WIDTH < bird.x and not p.score_counted\<close>.\<close>

definition scorable :: "real \<Rightarrow> PipePair \<Rightarrow> bool" where
  "scorable bx p \<longleftrightarrow> pipe_x p + real_of_int PipePair_WIDTH < bx \<and> \<not> score_counted p"

text \<open>The scoring loop \<^verbatim>\<open>for p in pipes: ...\<close>: it returns the pipes with their flags
  and the new score.\<close>

fun update_score :: "real \<Rightarrow> PipePair list \<Rightarrow> int \<Rightarrow> PipePair list \<times> int" where
  "update_score bx [] sc = ([], sc)"
| "update_score bx (p # ps) sc =
     (if scorable bx p then
        (case update_score bx ps (sc + 1) of
           (ps', sc') \<Rightarrow> (p\<lparr>score_counted := True\<rparr> # ps', sc'))
      else
        (case update_score bx ps sc of (ps', sc') \<Rightarrow> (p # ps', sc')))"

text \<open>The scoring loop run \<open>n\<close> times in a row on the same pipes.\<close>

fun update_score_times :: "nat \<Rightarrow> real \<Rightarrow> PipePair list \<times> int \<Rightarrow> PipePair list \<times> int" where
  "update_score_times 0 bx st = st"
| "update_score_times (Suc n) bx st =
     update_score_times n bx (update_score bx (fst st) (snd st))"

text \<open>The rest of an iteration that is not paused, in the order of the source: the
  collision test, the removal of pipes that left the window, \<^verbatim>\<open>p.update()\<close> on each
  pipe, \<^verbatim>\<open>bird.update()\<close>, the scoring loop, \<^verbatim>\<open>frame_clock += 1\<close>.\<close>

definition simulate :: "(PipePair \<Rightarrow> Bird \<Rightarrow> bool) \<Rightarrow> game \<Rightarrow> game" where
  "simulate cm g =
     (let g1 = check_collisions cm g;
          ps1 = drop_invisible (pipes g1);
          ps2 = map (PipePair_update 1) ps1;
          b2 = Bird_update 1 (bird g1);
          scored = update_score (bird_x b2) ps2 (score g1)
      in g1\<lparr>bird := b2, pipes := fst scored, score := snd scored,
            frame_clock := frame_clock g1 + 1\<rparr>)"

text \<open>One iteration of \<^verbatim>\<open>while not done\<close>; \<^verbatim>\<open>if paused: continue\<close> skips the rest.\<close>

definition tick :: "tick_input \<Rightarrow> game \<Rightarrow> game" where
  "tick inp g =
     (let g2 = after_events inp g in
      if paused g2 then g2 else simulate (collide_mask inp) g2)"

text \<open>The loop over the iterations for which input is given. It stops at the first state
  with \<open>done_flag\<close>; when the given inputs run out first, the state is returned with
  the flag still unset.\<close>

fun main_loop :: "tick_input list \<Rightarrow> game \<Rightarrow> game" where
  "main_loop [] g = g"
| "main_loop (inp # inps) g = (if done_flag g then g else main_loop inps (tick inp g))"

text \<open>The \<^verbatim>\<open>print\<close> behind the loop: the score that is reported, \<open>None\<close> while the
  loop has not ended.\<close>

definition report :: "game \<Rightarrow> int option" where
  "report g = (if done_flag g then Some (score g) else None)"

definition main :: "tick_input list \<Rightarrow> int option" where
  "main inps = report (main_loop inps initial_game)"


section \<open>The invariant of the pipe deque\<close>

text \<open>Pipe pairs are appended at the tail at \<open>x = WIN_WIDTH - 1\<close> and all move left by
  the same amount, so from the head to the tail \<open>x\<close> never falls, and no \<open>x\<close> exceeds
  \<open>WIN_WIDTH - 1\<close>.\<close>

definition ascending_stream :: "PipePair list \<Rightarrow> bool" where
  "ascending_stream ps \<longleftrightarrow>
     sorted (map pipe_x ps) \<and>
     list_all (\<lambda>v. v \<le> real_of_int (WIN_WIDTH - 1)) (map pipe_x ps)"


section \<open>Example states and inputs\<close>

text \<open>Concrete values at which the theorems below are evaluated. A mask test that
  reports no overlap:\<close>

definition no_collision :: "PipePair \<Rightarrow> Bird \<Rightarrow> bool" where
  "no_collision p b = False"

text \<open>An iteration with a single \<^verbatim>\<open>QUIT\<close> event, one with a single mouse click, and
  one with no event at all.\<close>

definition quit_input :: tick_input where
  "quit_input = \<lparr>events = [QUIT], entropy = 0, collide_mask = no_collision\<rparr>"

definition climb_input :: tick_input where
  "climb_input = \<lparr>events = [MOUSEBUTTONUP], entropy = 0, collide_mask = no_collision\<rparr>"

definition idle_input :: tick_input where
  "idle_input = \<lparr>events = [], entropy = 0, collide_mask = no_collision\<rparr>"

text \<open>A game in its 200th iteration: the pipe pair of frame 0 has moved 199 times by
  3 pixels and its right edge is just level with the bird's \<open>x\<close>; the pipe pair of
  frame 180 has moved 19 times. The bird is sinking.\<close>

definition passing_game :: game where
  "passing_game =
     \<lparr>bird = \<lparr>bird_x = 50, bird_y = 240, msec_to_climb = 0\<rparr>,
      pipes = [\<lparr>pipe_x = - 30, score_counted = False, top_pieces = 4, bottom_pieces = 8\<rparr>,
               \<lparr>pipe_x = 510, score_counted = False, top_pieces = 6, bottom_pieces = 6\<rparr>],
      frame_clock = 199,
      score = 0,
      done_flag = False,
      paused = False\<rparr>"

text \<open>The same game while paused.\<close>

definition paused_game :: game where
  "paused_game = passing_game\<lparr>paused := True\<rparr>"

text \<open>A game whose bird sinks one pixel above the lower bound of the window.\<close>

definition low_game :: game where
  "low_game =
     \<lparr>bird = \<lparr>bird_x = 50, bird_y = 479, msec_to_climb = 0\<rparr>,
      pipes = [\<lparr>pipe_x = 267, score_counted = False, top_pieces = 6, bottom_pieces = 6\<rparr>],
      frame_clock = 100,
      score = 0,
      done_flag = False,
      paused = False\<rparr>"

text \<open>A pipe list for the removal loop, oldest pipe pair first: the head has left the
  window on the left, the second pipe pair is inside it.\<close>

definition ascending_pipes :: "PipePair list" where
  "ascending_pipes =
     [\<lparr>pipe_x = - 100, score_counted = True, top_pieces = 6, bottom_pieces = 6\<rparr>,
      \<lparr>pipe_x = 100, score_counted = False, top_pieces = 6, bottom_pieces = 6\<rparr>]"


section \<open>Basic facts\<close>

lemma frames_to_msec_of_msec: "frames_to_msec (msec_to_frames ms FPS) FPS = ms"
  by (simp add: frames_to_msec_def msec_to_frames_def FPS_def)

lemma total_pipe_body_pieces_value: "total_pipe_body_pieces = 10"
  by (simp add: total_pipe_body_pieces_def py_int_def WIN_HEIGHT_def Bird_HEIGHT_def
      PIECE_HEIGHT_def)

lemma randint_range: "a \<le> b \<Longrightarrow> a \<le> randint a b seed \<and> randint a b seed \<le> b"
proof -
  assume ab: "a \<le> b"
  then have pos: "0 < nat (b - a + 1)" by simp
  have "seed mod nat (b - a + 1) < nat (b - a + 1)"
    using pos by (rule mod_less_divisor)
  then have "int (seed mod nat (b - a + 1)) < b - a + 1"
    using ab by linarith
  then show ?thesis by (simp add: randint_def)
qed

lemma randint_onto:
  assumes "a \<le> r" and "r \<le> b"
  shows "randint a b (nat (r - a)) = r"
proof -
  have "nat (r - a) < nat (b - a + 1)" using assms by linarith
  then have "nat (r - a) mod nat (b - a + 1) = nat (r - a)" by simp
  then show ?thesis using assms by (simp add: randint_def)
qed


subsection \<open>The scoring loop\<close>

lemma update_score_fst:
  "fst (update_score bx ps sc) =
     map (\<lambda>p. if scorable bx p then p\<lparr>score_counted := True\<rparr> else p) ps"
  by (induction ps arbitrary: sc) (simp_all add: case_prod_unfold)

lemma update_score_snd:
  "snd (update_score bx ps sc) = sc + int (length (filter (scorable bx) ps))"
  by (induction ps arbitrary: sc) (simp_all add: case_prod_unfold)

lemma update_score_eq:
  "update_score bx ps sc =
     (map (\<lambda>p. if scorable bx p then p\<lparr>score_counted := True\<rparr> else p) ps,
      sc + int (length (filter (scorable bx) ps)))"
  by (metis update_score_fst update_score_snd prod.collapse)

lemma filter_scorable_marked:
  "filter (scorable bx) (map (\<lambda>p. if scorable bx p then p\<lparr>score_counted := True\<rparr> else p) ps) = []"
  by (induction ps) (simp_all add: scorable_def)

lemma map_mark_idem:
  "map (\<lambda>p. if scorable bx p then p\<lparr>score_counted := True\<rparr> else p)
     (map (\<lambda>p. if scorable bx p then p\<lparr>score_counted := True\<rparr> else p) ps) =
   map (\<lambda>p. if scorable bx p then p\<lparr>score_counted := True\<rparr> else p) ps"
  by (induction ps) (simp_all add: scorable_def)

lemma update_score_again:
  "update_score bx (fst (update_score bx ps sc)) (snd (update_score bx ps sc)) =
     update_score bx ps sc"
  by (simp add: update_score_eq filter_scorable_marked map_mark_idem)

lemma update_score_times_fix:
  "update_score_times n bx (update_score bx ps sc) = update_score bx ps sc"
  by (induction n) (simp_all add: update_score_again)

subsection \<open>The removal loop\<close>

lemma drop_invisible_dropWhile: "drop_invisible ps = dropWhile (\<lambda>p. \<not> visible p) ps"
  by (induction ps) simp_all

lemma drop_invisible_drop:
  "drop_invisible ps = drop (length (takeWhile (\<lambda>p. \<not> visible p) ps)) ps"
  by (simp add: drop_invisible_dropWhile dropWhile_eq_drop)

lemma drop_invisible_filter:
  assumes "sorted (map pipe_x ps)"
    and "list_all (\<lambda>p. pipe_x p < real_of_int WIN_WIDTH) ps"
  shows "drop_invisible ps = filter visible ps"
  using assms
proof (induction ps)
  case Nil
  then show ?case by simp
next
  case (Cons p ps)
  show ?case
  proof (cases "visible p")
    case True
    have "\<forall>q \<in> set ps. visible q"
    proof
      fix q assume q: "q \<in> set ps"
      then have "pipe_x p \<le> pipe_x q" using Cons.prems(1) by auto
      moreover have "pipe_x q < real_of_int WIN_WIDTH"
        using Cons.prems(2) q by (auto simp: list_all_iff)
      ultimately show "visible q" using True by (simp add: visible_def)
    qed
    then have "filter visible ps = ps" by (simp add: filter_id_conv)
    with True show ?thesis by simp
  next
    case False
    moreover have "drop_invisible ps = filter visible ps"
      using Cons by simp
    ultimately show ?thesis by simp
  qed
qed


subsection \<open>The state through the steps of an iteration\<close>


lemma add_pipe_fields:
  "bird (add_pipe sd g) = bird g" "frame_clock (add_pipe sd g) = frame_clock g"
  "score (add_pipe sd g) = score g" "done_flag (add_pipe sd g) = done_flag g"
  "paused (add_pipe sd g) = paused g"
  by (simp_all add: add_pipe_def)

lemma add_pipe_pipes:
  "pipes (add_pipe sd g) =
     pipes g @ (if \<not> paused g \<and> py_mod (real_of_int (frame_clock g)) 180 = 0
                then [PipePair_init sd] else [])"
  by (simp add: add_pipe_def msec_to_frames_def ADD_INTERVAL_def FPS_def)

lemma handle_events_fields:
  "pipes (handle_events es g) = pipes g" "frame_clock (handle_events es g) = frame_clock g"
  "score (handle_events es g) = score g"
  "bird_x (bird (handle_events es g)) = bird_x (bird g)"
  "bird_y (bird (handle_events es g)) = bird_y (bird g)"
  by (induction es g rule: handle_events.induct) simp_all

lemma after_events_fields:
  "frame_clock (after_events inp g) = frame_clock g"
  "score (after_events inp g) = score g"
  "bird_x (bird (after_events inp g)) = bird_x (bird g)"
  "bird_y (bird (after_events inp g)) = bird_y (bird g)"
  "pipes (after_events inp g) = pipes (add_pipe (entropy inp) g)"
  by (simp_all add: after_events_def handle_events_fields add_pipe_fields)

lemma Bird_update_x: "bird_x (Bird_update d b) = bird_x b"
  by (simp add: Bird_update_def Let_def)

lemma PipePair_update_1: "PipePair_update 1 p = p\<lparr>pipe_x := pipe_x p - 3\<rparr>"
  by (simp add: PipePair_update_def ANIMATION_SPEED_def frames_to_msec_def FPS_def)

lemma simulate_fields:
  "done_flag (simulate cm g) = (done_flag g \<or> hits cm (pipes g) (bird g))"
  "paused (simulate cm g) = paused g"
  "frame_clock (simulate cm g) = frame_clock g + 1"
  "bird (simulate cm g) = Bird_update 1 (bird g)"
  "pipes (simulate cm g) =
     fst (update_score (bird_x (bird g)) (map (PipePair_update 1) (drop_invisible (pipes g)))
            (score g))"
  "score (simulate cm g) =
     snd (update_score (bird_x (bird g)) (map (PipePair_update 1) (drop_invisible (pipes g)))
            (score g))"
  by (simp_all add: simulate_def check_collisions_def Let_def Bird_update_x)

lemma tick_paused: "paused (after_events inp g) \<Longrightarrow> tick inp g = after_events inp g"
  by (simp add: tick_def)

lemma tick_running:
  "\<not> paused (after_events inp g) \<Longrightarrow> tick inp g = simulate (collide_mask inp) (after_events inp g)"
  by (simp add: tick_def)

lemma score_simulate: "score g \<le> score (simulate cm g)"
  by (simp add: simulate_fields update_score_snd)

lemma score_tick: "score g \<le> score (tick inp g)"
proof (cases "paused (after_events inp g)")
  case True
  then show ?thesis by (simp add: tick_paused after_events_fields)
next
  case False
  have "score (after_events inp g) \<le> score (simulate (collide_mask inp) (after_events inp g))"
    by (rule score_simulate)
  then show ?thesis using False by (simp add: tick_running after_events_fields)
qed

lemma score_main_loop: "score g \<le> score (main_loop inps g)"
proof (induction inps arbitrary: g)
  case Nil
  then show ?case by simp
next
  case (Cons inp inps)
  have "score g \<le> score (tick inp g)" by (rule score_tick)
  also have "\<dots> \<le> score (main_loop inps (tick inp g))" by (rule Cons.IH)
  finally show ?case by simp
qed

lemma main_loop_done: "done_flag g \<Longrightarrow> main_loop inps g = g"
  by (cases inps) simp_all

lemma take_after_events: "take (length (pipes g)) (pipes (after_events inp g)) = pipes g"
  by (simp add: after_events_fields add_pipe_pipes)


subsection \<open>The deque invariant is kept\<close>


lemma ascending_stream_same_x:
  "map pipe_x ps = map pipe_x qs \<Longrightarrow> ascending_stream ps = ascending_stream qs"
  by (simp add: ascending_stream_def)

lemma ascending_stream_append_new:
  assumes "ascending_stream ps"
  shows "ascending_stream (ps @ [PipePair_init sd])"
proof -
  have x: "pipe_x (PipePair_init sd) = real_of_int (WIN_WIDTH - 1)"
    by (simp add: PipePair_init_def PipePair_body_pieces_def Let_def)
  have "\<forall>v \<in> set (map pipe_x ps). v \<le> real_of_int (WIN_WIDTH - 1)"
    using assms by (simp add: ascending_stream_def list_all_iff)
  then show ?thesis
    using assms x by (auto simp: ascending_stream_def sorted_append list_all_iff)
qed

lemma ascending_stream_add_pipe:
  "ascending_stream (pipes g) \<Longrightarrow> ascending_stream (pipes (add_pipe sd g))"
  by (simp add: add_pipe_def ascending_stream_append_new)

lemma ascending_stream_drop:
  assumes "ascending_stream ps"
  shows "ascending_stream (drop k ps)"
proof -
  have "sorted (drop k (map pipe_x ps))"
    using assms by (simp add: ascending_stream_def sorted_wrt_drop)
  then have s: "sorted (map pipe_x (drop k ps))"
    by (simp add: drop_map)
  have "\<forall>p \<in> set (drop k ps). pipe_x p \<le> real_of_int (WIN_WIDTH - 1)"
    using assms by (auto simp: ascending_stream_def list_all_iff dest: in_set_dropD)
  then show ?thesis using s by (simp add: ascending_stream_def list_all_iff)
qed

lemma ascending_stream_drop_invisible:
  "ascending_stream ps \<Longrightarrow> ascending_stream (drop_invisible ps)"
  by (simp add: drop_invisible_drop ascending_stream_drop)

lemma ascending_stream_update:
  "ascending_stream ps \<Longrightarrow> ascending_stream (map (PipePair_update 1) ps)"
  by (induction ps) (auto simp: ascending_stream_def PipePair_update_1 list_all_iff)

lemma ascending_stream_scoring:
  "ascending_stream (fst (update_score bx ps sc)) = ascending_stream ps"
proof (rule ascending_stream_same_x)
  show "map pipe_x (fst (update_score bx ps sc)) = map pipe_x ps"
    by (simp add: update_score_fst comp_def if_distrib [of pipe_x] cong: if_cong)
qed

lemma ascending_stream_tick:
  assumes "ascending_stream (pipes g)"
  shows "ascending_stream (pipes (tick inp g))"
proof -
  have a: "ascending_stream (pipes (after_events inp g))"
    using assms by (simp add: after_events_fields ascending_stream_add_pipe)
  show ?thesis
  proof (cases "paused (after_events inp g)")
    case True
    then show ?thesis using a by (simp add: tick_paused)
  next
    case False
    then show ?thesis
      using a
      by (simp add: tick_running simulate_fields ascending_stream_scoring
          ascending_stream_update ascending_stream_drop_invisible)
  qed
qed

lemma ascending_stream_main_loop:
  "ascending_stream (pipes g) \<Longrightarrow> ascending_stream (pipes (main_loop inps g))"
  by (induction inps arbitrary: g) (simp_all add: ascending_stream_tick)

lemma ascending_stream_reached: "ascending_stream (pipes (main_loop inps initial_game))"
  by (rule ascending_stream_main_loop) (simp add: initial_game_def ascending_stream_def)

lemma ascending_stream_in_window:
  "ascending_stream ps \<Longrightarrow>
     sorted (map pipe_x ps) \<and> list_all (\<lambda>p. pipe_x p < real_of_int WIN_WIDTH) ps"
  by (auto simp: ascending_stream_def list_all_iff)


subsection \<open>The shape of one iteration\<close>

lemma handle_events_quiet:
  assumes "list_all (\<lambda>e. \<not> is_quit e \<and> \<not> is_pause e) es"
  shows "handle_events es g =
     g\<lparr>bird := (bird g)\<lparr>msec_to_climb :=
          (if list_ex is_climb es then CLIMB_DURATION else msec_to_climb (bird g))\<rparr>\<rparr>"
  using assms by (induction es arbitrary: g) simp_all

lemma tick_paused_quiet:
  assumes "paused g" and "list_all (\<lambda>e. \<not> is_quit e \<and> \<not> is_pause e) (events inp)"
  shows "tick inp g =
     g\<lparr>bird := (bird g)\<lparr>msec_to_climb :=
          (if list_ex is_climb (events inp) then CLIMB_DURATION else msec_to_climb (bird g))\<rparr>\<rparr>"
proof -
  have "add_pipe (entropy inp) g = g"
    using assms(1) by (simp add: add_pipe_def)
  then have "after_events inp g =
     g\<lparr>bird := (bird g)\<lparr>msec_to_climb :=
          (if list_ex is_climb (events inp) then CLIMB_DURATION else msec_to_climb (bird g))\<rparr>\<rparr>"
    using assms(2) by (simp add: after_events_def handle_events_quiet)
  then show ?thesis using assms(1) by (simp add: tick_def)
qed

lemma tick_running_fields:
  assumes "\<not> paused (after_events inp g)"
  shows "frame_clock (tick inp g) = frame_clock g + 1"
    and "bird (tick inp g) = Bird_update 1 (bird (after_events inp g))"
    and "map pipe_x (pipes (tick inp g)) =
           map (\<lambda>p. pipe_x p - 3) (drop_invisible (pipes (after_events inp g)))"
    and "score (tick inp g) =
           score g + int (length (filter (scorable (bird_x (bird g)))
             (map (PipePair_update 1) (drop_invisible (pipes (after_events inp g))))))"
    and "done_flag (tick inp g) =
           (done_flag (after_events inp g) \<or>
            hits (collide_mask inp) (pipes (after_events inp g)) (bird (after_events inp g)))"
proof -
  have t: "tick inp g = simulate (collide_mask inp) (after_events inp g)"
    using assms by (rule tick_running)
  show "frame_clock (tick inp g) = frame_clock g + 1"
    by (simp add: t simulate_fields after_events_fields)
  show "bird (tick inp g) = Bird_update 1 (bird (after_events inp g))"
    by (simp add: t simulate_fields)
  show "map pipe_x (pipes (tick inp g)) =
           map (\<lambda>p. pipe_x p - 3) (drop_invisible (pipes (after_events inp g)))"
    by (simp add: t simulate_fields update_score_fst PipePair_update_1 comp_def
        if_distrib [of pipe_x] cong: if_cong)
  show "score (tick inp g) =
           score g + int (length (filter (scorable (bird_x (bird g)))
             (map (PipePair_update 1) (drop_invisible (pipes (after_events inp g))))))"
    by (simp add: t simulate_fields update_score_snd after_events_fields)
  show "done_flag (tick inp g) =
           (done_flag (after_events inp g) \<or>
            hits (collide_mask inp) (pipes (after_events inp g)) (bird (after_events inp g)))"
    by (simp add: t simulate_fields)
qed


subsection \<open>The example states, evaluated\<close>

lemmas game_consts =
  WIN_WIDTH_def WIN_HEIGHT_def Bird_HEIGHT_def PipePair_WIDTH_def FPS_def SINK_SPEED_def
  CLIMB_DURATION_def frames_to_msec_def

lemma spawn_test_199: "py_mod (real_of_int 199) 180 \<noteq> 0"
  by (simp add: py_mod_def)

lemma spawn_test_100: "py_mod (real_of_int 100) 180 \<noteq> 0"
  by (simp add: py_mod_def)

lemma spawn_test_0: "py_mod (real_of_int 0) 180 = 0"
  by (simp add: py_mod_def)

lemma after_quit_passing: "after_events quit_input passing_game = passing_game\<lparr>done_flag := True\<rparr>"
  using spawn_test_199
  by (simp add: after_events_def quit_input_def passing_game_def add_pipe_def is_quit_def
      msec_to_frames_def ADD_INTERVAL_def FPS_def)

lemma after_idle_passing: "after_events idle_input passing_game = passing_game"
  using spawn_test_199
  by (simp add: after_events_def idle_input_def passing_game_def add_pipe_def
      msec_to_frames_def ADD_INTERVAL_def FPS_def)

lemma simulate_passing:
  "simulate no_collision (passing_game\<lparr>done_flag := d\<rparr>) =
     \<lparr>bird = \<lparr>bird_x = 50, bird_y = 243, msec_to_climb = 0\<rparr>,
      pipes = [\<lparr>pipe_x = - 33, score_counted = True, top_pieces = 4, bottom_pieces = 8\<rparr>,
               \<lparr>pipe_x = 507, score_counted = False, top_pieces = 6, bottom_pieces = 6\<rparr>],
      frame_clock = 200,
      score = 1,
      done_flag = d,
      paused = False\<rparr>"
  by (simp add: simulate_def check_collisions_def hits_def no_collision_def passing_game_def
      Let_def visible_def Bird_update_def PipePair_update_1 scorable_def game_consts)

lemma tick_quit_passing:
  "tick quit_input passing_game =
     \<lparr>bird = \<lparr>bird_x = 50, bird_y = 243, msec_to_climb = 0\<rparr>,
      pipes = [\<lparr>pipe_x = - 33, score_counted = True, top_pieces = 4, bottom_pieces = 8\<rparr>,
               \<lparr>pipe_x = 507, score_counted = False, top_pieces = 6, bottom_pieces = 6\<rparr>],
      frame_clock = 200,
      score = 1,
      done_flag = True,
      paused = False\<rparr>"
proof -
  have "\<not> paused (after_events quit_input passing_game)"
    unfolding after_quit_passing by (simp add: passing_game_def)
  then have t: "tick quit_input passing_game =
      simulate (collide_mask quit_input) (after_events quit_input passing_game)"
    by (rule tick_running)
  have c: "collide_mask quit_input = no_collision"
    by (simp add: quit_input_def)
  show ?thesis
    unfolding t c after_quit_passing by (rule simulate_passing)
qed

lemma tick_idle_passing:
  "tick idle_input passing_game =
     \<lparr>bird = \<lparr>bird_x = 50, bird_y = 243, msec_to_climb = 0\<rparr>,
      pipes = [\<lparr>pipe_x = - 33, score_counted = True, top_pieces = 4, bottom_pieces = 8\<rparr>,
               \<lparr>pipe_x = 507, score_counted = False, top_pieces = 6, bottom_pieces = 6\<rparr>],
      frame_clock = 200,
      score = 1,
      done_flag = False,
      paused = False\<rparr>"
proof -
  have "\<not> paused (after_events idle_input passing_game)"
    unfolding after_idle_passing by (simp add: passing_game_def)
  then have t: "tick idle_input passing_game =
      simulate (collide_mask idle_input) (after_events idle_input passing_game)"
    by (rule tick_running)
  have c: "collide_mask idle_input = no_collision"
    by (simp add: idle_input_def)
  have e: "passing_game\<lparr>done_flag := False\<rparr> = passing_game"
    by (simp add: passing_game_def)
  show ?thesis
    unfolding t c after_idle_passing using simulate_passing [of False] unfolding e .
qed

lemma after_idle_low: "after_events idle_input low_game = low_game"
  using spawn_test_100
  by (simp add: after_events_def idle_input_def low_game_def add_pipe_def
      msec_to_frames_def ADD_INTERVAL_def FPS_def)

lemma tick_idle_low:
  "tick idle_input low_game =
     \<lparr>bird = \<lparr>bird_x = 50, bird_y = 482, msec_to_climb = 0\<rparr>,
      pipes = [\<lparr>pipe_x = 264, score_counted = False, top_pieces = 6, bottom_pieces = 6\<rparr>],
      frame_clock = 101,
      score = 0,
      done_flag = False,
      paused = False\<rparr>"
proof -
  have "\<not> paused (after_events idle_input low_game)"
    unfolding after_idle_low by (simp add: low_game_def)
  then have t: "tick idle_input low_game =
      simulate (collide_mask idle_input) (after_events idle_input low_game)"
    by (rule tick_running)
  have c: "collide_mask idle_input = no_collision"
    by (simp add: idle_input_def)
  show ?thesis
    unfolding t c after_idle_low
    by (simp add: simulate_def check_collisions_def hits_def
        no_collision_def low_game_def Let_def visible_def Bird_update_def PipePair_update_1
        scorable_def game_consts)
qed

lemma tick_climb_paused:
  "tick climb_input paused_game =
     paused_game\<lparr>bird := \<lparr>bird_x = 50, bird_y = 240, msec_to_climb = CLIMB_DURATION\<rparr>\<rparr>"
  by (simp add: tick_def after_events_def climb_input_def paused_game_def passing_game_def
      add_pipe_def is_quit_def is_pause_def is_climb_def)

lemma after_quit_initial:
  "after_events quit_input initial_game =
     initial_game\<lparr>pipes := [PipePair_init 0], done_flag := True\<rparr>"
  using spawn_test_0
  by (simp add: after_events_def quit_input_def initial_game_def add_pipe_def is_quit_def
      msec_to_frames_def ADD_INTERVAL_def FPS_def)

lemma tick_quit_initial:
  "frame_clock (tick quit_input initial_game) = 1
   \<and> map pipe_x (pipes (tick quit_input initial_game)) = [564]
   \<and> done_flag (tick quit_input initial_game)"
proof -
  have "\<not> paused (after_events quit_input initial_game)"
    unfolding after_quit_initial by (simp add: initial_game_def)
  then have t: "tick quit_input initial_game =
      simulate (collide_mask quit_input) (after_events quit_input initial_game)"
    by (rule tick_running)
  have v: "visible (PipePair_init 0)" "pipe_x (PipePair_init 0) = 567"
    by (simp_all add: visible_def PipePair_init_def PipePair_body_pieces_def Let_def game_consts)
  show ?thesis
    unfolding t after_quit_initial using v
    by (simp add: simulate_fields initial_game_def update_score_fst
        PipePair_update_1 comp_def if_distrib [of pipe_x] cong: if_cong)
qed

lemma tick_idle_low_twice:
  "tick idle_input (tick idle_input low_game) =
     \<lparr>bird = \<lparr>bird_x = 50, bird_y = 485, msec_to_climb = 0\<rparr>,
      pipes = [\<lparr>pipe_x = 261, score_counted = False, top_pieces = 6, bottom_pieces = 6\<rparr>],
      frame_clock = 102,
      score = 0,
      done_flag = True,
      paused = False\<rparr>"
proof -
  have m: "py_mod (real_of_int 101) 180 \<noteq> 0"
    by (simp add: py_mod_def)
  show ?thesis
    unfolding tick_idle_low using m
    by (simp add: tick_def after_events_def idle_input_def add_pipe_def msec_to_frames_def
        ADD_INTERVAL_def simulate_def check_collisions_def hits_def no_collision_def Let_def
        visible_def Bird_update_def PipePair_update_1 scorable_def game_consts)
qed

lemma tick_idle_passing_twice:
  "tick idle_input (tick idle_input passing_game) =
     \<lparr>bird = \<lparr>bird_x = 50, bird_y = 246, msec_to_climb = 0\<rparr>,
      pipes = [\<lparr>pipe_x = - 36, score_counted = True, top_pieces = 4, bottom_pieces = 8\<rparr>,
               \<lparr>pipe_x = 504, score_counted = False, top_pieces = 6, bottom_pieces = 6\<rparr>],
      frame_clock = 201,
      score = 1,
      done_flag = False,
      paused = False\<rparr>"
proof -
  have m: "py_mod (real_of_int 200) 180 \<noteq> 0"
    by (simp add: py_mod_def)
  show ?thesis
    unfolding tick_idle_passing using m
    by (simp add: tick_def after_events_def idle_input_def add_pipe_def msec_to_frames_def
        ADD_INTERVAL_def simulate_def check_collisions_def hits_def no_collision_def Let_def
        visible_def Bird_update_def PipePair_update_1 scorable_def game_consts)
qed


section \<open>Pipe geometry\<close>

text \<open>
  Claim C4. For every pipe pair the constructor builds, whatever the random draw: the
  number of body pieces \<open>total_pipe_body_pieces\<close> is the floor of
  \<open>(WIN_HEIGHT - 3 * Bird.HEIGHT - 3 * PIECE_HEIGHT) / PIECE_HEIGHT\<close>; the bottom count
  is drawn from 1 to that total, the top count is the total minus the bottom count,
  then both are incremented by one for the end pieces; so the two counts, each less
  one, always sum to the total.
\<close>

theorem pipe_piece_conservation:
  "total_pipe_body_pieces =
      \<lfloor>real_of_int (WIN_HEIGHT - 3 * Bird_HEIGHT - 3 * PIECE_HEIGHT) / real_of_int PIECE_HEIGHT\<rfloor>
   \<and> 1 \<le> bottom_pieces (PipePair_body_pieces sd)
   \<and> bottom_pieces (PipePair_body_pieces sd) \<le> total_pipe_body_pieces
   \<and> top_pieces (PipePair_body_pieces sd) =
       total_pipe_body_pieces - bottom_pieces (PipePair_body_pieces sd)
   \<and> top_pieces (PipePair_init sd) = top_pieces (PipePair_body_pieces sd) + 1
   \<and> bottom_pieces (PipePair_init sd) = bottom_pieces (PipePair_body_pieces sd) + 1
   \<and> (top_pieces (PipePair_init sd) - 1) + (bottom_pieces (PipePair_init sd) - 1) =
       total_pipe_body_pieces"
proof -
  have tot: "total_pipe_body_pieces =
      \<lfloor>real_of_int (WIN_HEIGHT - 3 * Bird_HEIGHT - 3 * PIECE_HEIGHT) / real_of_int PIECE_HEIGHT\<rfloor>"
    by (simp add: total_pipe_body_pieces_def py_int_def WIN_HEIGHT_def Bird_HEIGHT_def
        PIECE_HEIGHT_def)
  have "(1::int) \<le> total_pipe_body_pieces"
    by (simp add: total_pipe_body_pieces_value)
  then have rng: "1 \<le> randint 1 total_pipe_body_pieces sd \<and>
      randint 1 total_pipe_body_pieces sd \<le> total_pipe_body_pieces"
    by (rule randint_range)
  show ?thesis
    using tot rng by (simp add: PipePair_body_pieces_def PipePair_init_def Let_def)
qed

text \<open>The draw at entropy 13 is 4 bottom body pieces, hence 6 top body pieces.\<close>

theorem pipe_piece_conservation_witness:
  "bottom_pieces (PipePair_body_pieces 13) = 4 \<and> top_pieces (PipePair_body_pieces 13) = 6
   \<and> bottom_pieces (PipePair_init 13) = 5 \<and> top_pieces (PipePair_init 13) = 7
   \<and> (top_pieces (PipePair_init 13) - 1) + (bottom_pieces (PipePair_init 13) - 1) = 10"
  using pipe_piece_conservation [of 13]
  by (simp add: PipePair_body_pieces_def PipePair_init_def randint_def
      total_pipe_body_pieces_value)

text \<open>
  Claim C9. For every pipe pair, whatever the random draw, the vertical gap between the
  bottom edge of the top pipe (\<open>top_height_px\<close>) and the top edge of the bottom pipe
  (\<open>WIN_HEIGHT - bottom_height_px\<close>) is the constant
  \<open>WIN_HEIGHT - (total_pipe_body_pieces + 2) * PIECE_HEIGHT\<close>, which is 128 pixels. A
  new pipe pair always starts at \<open>WIN_WIDTH - 1\<close> with its score flag unset; what
  differs between two pipe pairs is where the gap sits (entropy 0 and entropy 1 give
  different top heights).
\<close>

theorem pipe_gap_constant:
  "(WIN_HEIGHT - bottom_height_px (PipePair_init sd)) - top_height_px (PipePair_init sd) =
     WIN_HEIGHT - (total_pipe_body_pieces + 2) * PIECE_HEIGHT
   \<and> WIN_HEIGHT - (total_pipe_body_pieces + 2) * PIECE_HEIGHT = 128
   \<and> pipe_x (PipePair_init sd) = real_of_int (WIN_WIDTH - 1)
   \<and> score_counted (PipePair_init sd) = False
   \<and> top_height_px (PipePair_init 0) \<noteq> top_height_px (PipePair_init 1)"
  by (simp add: bottom_height_px_def top_height_px_def PipePair_init_def PipePair_body_pieces_def
      Let_def total_pipe_body_pieces_value WIN_HEIGHT_def PIECE_HEIGHT_def algebra_simps
      randint_def)

text \<open>At entropy 13 the top pipe ends at 224 and the bottom pipe starts at 352.\<close>

theorem pipe_gap_constant_witness:
  "top_height_px (PipePair_init 13) = 224
   \<and> WIN_HEIGHT - bottom_height_px (PipePair_init 13) = 352
   \<and> (WIN_HEIGHT - bottom_height_px (PipePair_init 13)) - top_height_px (PipePair_init 13) = 128"
  using pipe_gap_constant [of 13]
  by (simp add: bottom_height_px_def top_height_px_def PipePair_init_def PipePair_body_pieces_def
      Let_def total_pipe_body_pieces_value WIN_HEIGHT_def PIECE_HEIGHT_def randint_def)


section \<open>Bird motion\<close>

text \<open>
  Claim C5. \<open>Bird.update\<close> for an elapsed time of \<open>elapsedMs\<close> milliseconds (that is,
  for \<open>msec_to_frames elapsedMs\<close> frames): while \<open>msec_to_climb\<close> is positive, the new
  \<open>y\<close> is the old one minus
  \<open>CLIMB_SPEED * elapsedMs * (1 - cos ((1 - msec_to_climb / CLIMB_DURATION) * pi))\<close> and
  the timer goes down by \<open>elapsedMs\<close>; otherwise the new \<open>y\<close> is the old one plus
  \<open>SINK_SPEED * elapsedMs\<close> and the timer is unchanged. Nothing else of the bird
  changes. (Arithmetic is exact here; the program rounds each operation to a double.)
\<close>

theorem Bird_update_advance:
  "Bird_update (msec_to_frames elapsedMs FPS) b =
     (if msec_to_climb b > 0 then
        b\<lparr>bird_y := bird_y b - CLIMB_SPEED * elapsedMs *
                     (1 - cos ((1 - msec_to_climb b / CLIMB_DURATION) * pi)),
          msec_to_climb := msec_to_climb b - elapsedMs\<rparr>
      else b\<lparr>bird_y := bird_y b + SINK_SPEED * elapsedMs\<rparr>)"
  by (simp add: Bird_update_def frames_to_msec_of_msec Let_def)

text \<open>Ten milliseconds at the very start of a climb (the cosine term is zero there),
  and ten milliseconds of sinking.\<close>

theorem Bird_update_advance_witness:
  "Bird_update (msec_to_frames 10 FPS) \<lparr>bird_x = 50, bird_y = 240, msec_to_climb = 333.3\<rparr> =
     \<lparr>bird_x = 50, bird_y = 240, msec_to_climb = 323.3\<rparr>
   \<and> Bird_update (msec_to_frames 10 FPS) \<lparr>bird_x = 50, bird_y = 240, msec_to_climb = 0\<rparr> =
     \<lparr>bird_x = 50, bird_y = 241.8, msec_to_climb = 0\<rparr>"
  using Bird_update_advance [of 10 "\<lparr>bird_x = 50, bird_y = 240, msec_to_climb = 333.3\<rparr>"]
    Bird_update_advance [of 10 "\<lparr>bird_x = 50, bird_y = 240, msec_to_climb = 0\<rparr>"]
  by (simp add: CLIMB_DURATION_def CLIMB_SPEED_def SINK_SPEED_def)

text \<open>
  Claim C8. For a bird that is not climbing (\<open>msec_to_climb \<le> 0\<close>), an update over
  \<open>t1\<close> milliseconds followed by one over \<open>t2\<close> milliseconds ends at the same \<open>y\<close>
  (indeed in the same state) as a single update over \<open>t1 + t2\<close> milliseconds. In exact
  arithmetic the two are equal, for all \<open>t1\<close> and \<open>t2\<close>; the program's results differ
  by rounding only.
\<close>

theorem sink_linearity:
  assumes "msec_to_climb b \<le> 0"
  shows "bird_y (Bird_update (msec_to_frames t2 FPS) (Bird_update (msec_to_frames t1 FPS) b)) =
         bird_y (Bird_update (msec_to_frames (t1 + t2) FPS) b)
       \<and> Bird_update (msec_to_frames t2 FPS) (Bird_update (msec_to_frames t1 FPS) b) =
         Bird_update (msec_to_frames (t1 + t2) FPS) b"
  using assms by (simp add: Bird_update_def frames_to_msec_of_msec distrib_left)

text \<open>Sinking for 10 and then 20 milliseconds from \<open>y = 240\<close> ends at 245.4, as
  sinking for 30 milliseconds does.\<close>

theorem sink_linearity_witness:
  "bird_y (Bird_update (msec_to_frames 20 FPS)
     (Bird_update (msec_to_frames 10 FPS) \<lparr>bird_x = 50, bird_y = 240, msec_to_climb = 0\<rparr>)) = 245.4
   \<and> bird_y (Bird_update (msec_to_frames (10 + 20) FPS)
        \<lparr>bird_x = 50, bird_y = 240, msec_to_climb = 0\<rparr>) = 245.4"
proof -
  have h: "msec_to_climb \<lparr>bird_x = 50, bird_y = 240, msec_to_climb = 0\<rparr> \<le> 0" by simp
  have v: "bird_y (Bird_update (msec_to_frames (10 + 20) FPS)
        \<lparr>bird_x = 50, bird_y = 240, msec_to_climb = 0\<rparr>) = 245.4"
    by (simp add: Bird_update_def frames_to_msec_def msec_to_frames_def FPS_def SINK_SPEED_def)
  show ?thesis using sink_linearity [OF h, of 20 10] v by simp
qed


section \<open>Scoring\<close>

text \<open>
  Claim C6. One pass of the scoring loop over the pipes adds exactly one to the score
  for each pipe pair whose right edge (\<open>x + PipePair.WIDTH\<close>) is left of the bird's
  \<open>x\<close> and whose \<open>score_counted\<close> flag is unset, and sets the flag of exactly those
  pipe pairs. Any number of further passes over the same pipes changes neither the
  score nor the pipes: each such pipe pair is counted once in total.
\<close>

theorem scoring_exactly_once:
  "snd (update_score bx ps sc) = sc + int (length (filter (scorable bx) ps))
   \<and> fst (update_score bx ps sc) =
       map (\<lambda>p. if scorable bx p then p\<lparr>score_counted := True\<rparr> else p) ps
   \<and> update_score_times n bx (update_score bx ps sc) = update_score bx ps sc
   \<and> update_score_times (Suc n) bx (ps, sc) = update_score bx ps sc"
  by (simp add: update_score_fst update_score_snd update_score_times_fix)

text \<open>The pipes of \<open>passing_game\<close> moved on by one frame: the first one is past the
  bird at \<open>x = 50\<close>, the second is not. One pass, and four passes, give score 1.\<close>

theorem scoring_exactly_once_witness:
  "update_score 50 (map (PipePair_update 1) (pipes passing_game)) 0 =
     ([\<lparr>pipe_x = - 33, score_counted = True, top_pieces = 4, bottom_pieces = 8\<rparr>,
       \<lparr>pipe_x = 507, score_counted = False, top_pieces = 6, bottom_pieces = 6\<rparr>], 1)
   \<and> update_score_times 4 50 (map (PipePair_update 1) (pipes passing_game), 0) =
     ([\<lparr>pipe_x = - 33, score_counted = True, top_pieces = 4, bottom_pieces = 8\<rparr>,
       \<lparr>pipe_x = 507, score_counted = False, top_pieces = 6, bottom_pieces = 6\<rparr>], 1)"
proof -
  have one: "update_score 50 (map (PipePair_update 1) (pipes passing_game)) 0 =
     ([\<lparr>pipe_x = - 33, score_counted = True, top_pieces = 4, bottom_pieces = 8\<rparr>,
       \<lparr>pipe_x = 507, score_counted = False, top_pieces = 6, bottom_pieces = 6\<rparr>], 1)"
    by (simp add: passing_game_def PipePair_update_def scorable_def PipePair_WIDTH_def
        ANIMATION_SPEED_def frames_to_msec_def FPS_def)
  show ?thesis
    using scoring_exactly_once [of 50 "map (PipePair_update 1) (pipes passing_game)" 0 3] one
    by simp
qed


section \<open>Removing pipes that left the window\<close>

text \<open>
  Claim C7. After the removal loop, the pipes that remain in the deque are exactly
  those whose horizontal extent still meets the window, that is those with
  \<open>- PipePair.WIDTH < x < WIN_WIDTH\<close>, and the loop removes pipes from the head of the
  deque only, never from the middle or the tail (the result is the deque with its first
  \<open>k\<close> elements dropped). This rests on the invariant of the deque: it is ordered by
  creation, the oldest pipe pair at the head, so that \<open>x\<close> is smallest at the head,
  never falls towards the tail, and stays below \<open>WIN_WIDTH\<close>. The statement is proved
  for every list with that invariant, and without any hypothesis for the deque at the
  point where the removal loop runs, in every iteration of every run of the loop from
  the initial state, where the invariant always holds.
\<close>

theorem prune_keeps_visible:
  assumes "sorted (map pipe_x ps)"
    and "list_all (\<lambda>p. pipe_x p < real_of_int WIN_WIDTH) ps"
  shows "drop_invisible ps = filter visible ps
       \<and> drop_invisible ps = drop (length (takeWhile (\<lambda>p. \<not> visible p) ps)) ps
       \<and> list_all (\<lambda>p. - real_of_int PipePair_WIDTH < pipe_x p \<and> pipe_x p < real_of_int WIN_WIDTH)
           (drop_invisible ps)
       \<and> ascending_stream (pipes (after_events inp (main_loop inps initial_game)))
       \<and> drop_invisible (pipes (after_events inp (main_loop inps initial_game))) =
           filter visible (pipes (after_events inp (main_loop inps initial_game)))
       \<and> drop_invisible (pipes (after_events inp (main_loop inps initial_game))) =
           drop (length (takeWhile (\<lambda>p. \<not> visible p)
                   (pipes (after_events inp (main_loop inps initial_game)))))
             (pipes (after_events inp (main_loop inps initial_game)))
       \<and> list_all (\<lambda>p. - real_of_int PipePair_WIDTH < pipe_x p \<and> pipe_x p < real_of_int WIN_WIDTH)
           (drop_invisible (pipes (after_events inp (main_loop inps initial_game))))"
proof -
  let ?qs = "pipes (after_events inp (main_loop inps initial_game))"
  have v: "list_all (\<lambda>p. - real_of_int PipePair_WIDTH < pipe_x p \<and> pipe_x p < real_of_int WIN_WIDTH)
           (filter visible rs)" for rs
    by (simp add: list_all_iff visible_def)
  have f: "drop_invisible ps = filter visible ps"
    using assms by (rule drop_invisible_filter)
  have a: "ascending_stream ?qs"
    by (simp add: after_events_fields ascending_stream_add_pipe ascending_stream_reached)
  then have "sorted (map pipe_x ?qs) \<and> list_all (\<lambda>p. pipe_x p < real_of_int WIN_WIDTH) ?qs"
    by (rule ascending_stream_in_window)
  then have r: "drop_invisible ?qs = filter visible ?qs"
    by (simp add: drop_invisible_filter)
  have w: "list_all (\<lambda>p. - real_of_int PipePair_WIDTH < pipe_x p \<and> pipe_x p < real_of_int WIN_WIDTH)
           (drop_invisible ps)"
    unfolding f by (rule v)
  have w': "list_all (\<lambda>p. - real_of_int PipePair_WIDTH < pipe_x p \<and> pipe_x p < real_of_int WIN_WIDTH)
           (drop_invisible ?qs)"
    unfolding r by (rule v)
  show ?thesis
    using f a r w w' drop_invisible_drop [of ps] drop_invisible_drop [of ?qs] by simp
qed

text \<open>On \<open>ascending_pipes\<close> the loop removes the head at \<open>x = -100\<close> and keeps the
  pipe at \<open>x = 100\<close>. In the first iteration from the initial state the deque holds the
  new pipe pair at \<open>x = 567\<close>, which is visible and stays.\<close>

theorem prune_keeps_visible_witness:
  "sorted (map pipe_x ascending_pipes)
   \<and> list_all (\<lambda>p. pipe_x p < real_of_int WIN_WIDTH) ascending_pipes
   \<and> drop_invisible ascending_pipes =
       [\<lparr>pipe_x = 100, score_counted = False, top_pieces = 6, bottom_pieces = 6\<rparr>]
   \<and> filter visible ascending_pipes =
       [\<lparr>pipe_x = 100, score_counted = False, top_pieces = 6, bottom_pieces = 6\<rparr>]
   \<and> drop_invisible ascending_pipes = drop 1 ascending_pipes
   \<and> map pipe_x (pipes (after_events quit_input (main_loop [] initial_game))) = [567]
   \<and> map pipe_x (filter visible (pipes (after_events quit_input (main_loop [] initial_game)))) =
       [567]"
proof -
  have h1: "sorted (map pipe_x ascending_pipes)"
    by (simp add: ascending_pipes_def)
  have h2: "list_all (\<lambda>p. pipe_x p < real_of_int WIN_WIDTH) ascending_pipes"
    by (simp add: ascending_pipes_def WIN_WIDTH_def)
  have v: "filter visible ascending_pipes =
       [\<lparr>pipe_x = 100, score_counted = False, top_pieces = 6, bottom_pieces = 6\<rparr>]"
    by (simp add: ascending_pipes_def visible_def WIN_WIDTH_def PipePair_WIDTH_def)
  have d: "drop 1 ascending_pipes =
       [\<lparr>pipe_x = 100, score_counted = False, top_pieces = 6, bottom_pieces = 6\<rparr>]"
    by (simp add: ascending_pipes_def)
  have x: "pipe_x (PipePair_init 0) = 567"
    by (simp add: PipePair_init_def PipePair_body_pieces_def Let_def WIN_WIDTH_def)
  have i: "map pipe_x (pipes (after_events quit_input (main_loop [] initial_game))) = [567]"
    unfolding main_loop.simps after_quit_initial using x by simp
  have j: "map pipe_x (drop_invisible (pipes (after_events quit_input (main_loop [] initial_game)))) =
       [567]"
    unfolding main_loop.simps after_quit_initial using x
    by (simp add: visible_def WIN_WIDTH_def PipePair_WIDTH_def)
  show ?thesis
    using prune_keeps_visible [OF h1 h2, of quit_input "[]"] h1 h2 v d i j by simp
qed


section \<open>Score and score flags over the loop\<close>

text \<open>
  Claim C10. The score never decreases: not over one iteration, and not over any run of
  the loop. A pipe pair's \<open>score_counted\<close> flag, once set, stays set for as long as the
  pipe pair is in the deque: an iteration leaves the old pipes as a prefix of the deque
  when it may append a new one, and the pipes at its end are, position by position, the
  pipes that survive the removal loop (all of them in a paused iteration), each with
  its flag still set if it was set and with the same piece counts.
\<close>

theorem score_never_decreases:
  "score g \<le> score (tick inp g)
   \<and> score g \<le> score (main_loop inps g)
   \<and> take (length (pipes g)) (pipes (after_events inp g)) = pipes g
   \<and> list_all2 (\<lambda>p q. (score_counted p \<longrightarrow> score_counted q)
                      \<and> top_pieces q = top_pieces p \<and> bottom_pieces q = bottom_pieces p)
       (if paused (after_events inp g) then pipes (after_events inp g)
        else drop_invisible (pipes (after_events inp g)))
       (pipes (tick inp g))"
proof -
  have "list_all2 (\<lambda>p q. (score_counted p \<longrightarrow> score_counted q)
                      \<and> top_pieces q = top_pieces p \<and> bottom_pieces q = bottom_pieces p)
       (if paused (after_events inp g) then pipes (after_events inp g)
        else drop_invisible (pipes (after_events inp g)))
       (pipes (tick inp g))"
  proof (cases "paused (after_events inp g)")
    case True
    then show ?thesis by (simp add: tick_paused list_all2_refl)
  next
    case False
    then show ?thesis
      by (simp add: tick_running simulate_fields update_score_fst list_all2_map2
          list_all2_same PipePair_update_def)
  qed
  then show ?thesis
    using score_tick [of g inp] score_main_loop [of g inps] take_after_events [of g inp]
    by simp
qed

text \<open>Two idle iterations from \<open>passing_game\<close>: the first pipe is counted in the first
  one, its flag is still set after the second, and the score stays 1.\<close>

theorem score_never_decreases_witness:
  "score passing_game = 0
   \<and> score (tick idle_input passing_game) = 1
   \<and> map score_counted (pipes (tick idle_input passing_game)) = [True, False]
   \<and> score (tick idle_input (tick idle_input passing_game)) = 1
   \<and> map score_counted (pipes (tick idle_input (tick idle_input passing_game))) = [True, False]
   \<and> score passing_game \<le> score (main_loop [idle_input, idle_input] passing_game)"
proof -
  have a: "score passing_game = 0"
    by (simp add: passing_game_def)
  have b: "score (tick idle_input passing_game) = 1
   \<and> map score_counted (pipes (tick idle_input passing_game)) = [True, False]"
    unfolding tick_idle_passing by simp
  have c: "score (tick idle_input (tick idle_input passing_game)) = 1
   \<and> map score_counted (pipes (tick idle_input (tick idle_input passing_game))) = [True, False]"
    unfolding tick_idle_passing_twice by simp
  show ?thesis
    using score_never_decreases [of passing_game idle_input "[idle_input, idle_input]"] a b c
    by simp
qed


section \<open>The order of the steps of an iteration\<close>

text \<open>
  Claim C3, as stated: in an iteration that is not paused, pipes and bird are advanced
  before the collision test, so the test sees the positions after the advance. It
  fails: from \<open>low_game\<close> (bird at \<open>y = 479\<close>, the lower bound being 480) an idle
  iteration moves the bird to \<open>y = 482\<close>, where the test would hold, and yet leaves
  \<open>done\<close> unset, because the test ran on \<open>y = 479\<close>.
\<close>

theorem collision_after_advance_counterexample:
  "\<not> paused (after_events idle_input low_game)
   \<and> \<not> done_flag low_game
   \<and> \<not> done_flag (tick idle_input low_game)
   \<and> bird_y (bird (tick idle_input low_game)) = 482
   \<and> real_of_int (WIN_HEIGHT - Bird_HEIGHT) = 480
   \<and> hits no_collision (pipes (tick idle_input low_game)) (bird (tick idle_input low_game))
   \<and> \<not> hits no_collision (pipes low_game) (bird low_game)"
proof -
  have h: "\<not> paused (after_events idle_input low_game)"
    unfolding after_idle_low by (simp add: low_game_def)
  have a: "\<not> done_flag (tick idle_input low_game)
   \<and> bird_y (bird (tick idle_input low_game)) = 482
   \<and> hits no_collision (pipes (tick idle_input low_game)) (bird (tick idle_input low_game))"
    unfolding tick_idle_low by (simp add: hits_def game_consts)
  have b: "\<not> done_flag low_game \<and> \<not> hits no_collision (pipes low_game) (bird low_game)"
    by (simp add: low_game_def hits_def no_collision_def game_consts)
  show ?thesis using h a b by (simp add: game_consts)
qed

text \<open>
  Claim C3, amended. In every iteration that is not paused, the collision test (mask
  overlap with some pipe, \<open>0 \<ge> y\<close>, or \<open>y \<ge> WIN_HEIGHT - Bird.HEIGHT\<close>) runs before
  the advance of that iteration: \<open>done\<close> is set exactly when it was already set by a
  quit event or the test holds of the state right after the events, in which the bird's
  \<open>x\<close> and \<open>y\<close> are those the iteration started with and the pipes are those it
  started with, plus the pipe pair this iteration may have appended. Only then are the
  pipes that left the window removed, the remaining pipes moved left by 3 pixels and
  the bird updated; the positions so reached are tested in the next iteration that is
  not paused.
\<close>

theorem collision_test_before_advance:
  assumes "\<not> paused (after_events inp g)"
  shows "done_flag (tick inp g) =
           (done_flag (after_events inp g) \<or>
            hits (collide_mask inp) (pipes (after_events inp g)) (bird (after_events inp g)))
       \<and> bird_x (bird (after_events inp g)) = bird_x (bird g)
       \<and> bird_y (bird (after_events inp g)) = bird_y (bird g)
       \<and> take (length (pipes g)) (pipes (after_events inp g)) = pipes g
       \<and> bird (tick inp g) = Bird_update 1 (bird (after_events inp g))
       \<and> map pipe_x (pipes (tick inp g)) =
           map (\<lambda>p. pipe_x p - 3) (drop_invisible (pipes (after_events inp g)))"
  using tick_running_fields(2,3,5) [OF assms] take_after_events [of g inp]
  by (simp add: after_events_fields)

text \<open>The idle iteration from \<open>low_game\<close>: the test is evaluated at \<open>y = 479\<close> and
  fails, and the iteration ends at \<open>y = 482\<close> with \<open>done\<close> unset.\<close>

theorem collision_test_before_advance_witness:
  "\<not> paused (after_events idle_input low_game)
   \<and> hits no_collision (pipes (after_events idle_input low_game))
        (bird (after_events idle_input low_game)) = False
   \<and> done_flag (tick idle_input low_game) = False
   \<and> bird_y (bird (after_events idle_input low_game)) = 479
   \<and> bird_y (bird (tick idle_input low_game)) = 482"
proof -
  have h: "\<not> paused (after_events idle_input low_game)"
    unfolding after_idle_low by (simp add: low_game_def)
  have a: "hits no_collision (pipes (after_events idle_input low_game))
        (bird (after_events idle_input low_game)) = False"
    unfolding after_idle_low by (simp add: low_game_def hits_def no_collision_def game_consts)
  have b: "bird_y (bird (after_events idle_input low_game)) = 479"
    unfolding after_idle_low by (simp add: low_game_def)
  have c: "bird_y (bird (tick idle_input low_game)) = 482"
    unfolding tick_idle_low by simp
  have d: "\<not> done_flag (after_events idle_input low_game)"
    unfolding after_idle_low by (simp add: low_game_def)
  have m: "collide_mask idle_input = no_collision"
    by (simp add: idle_input_def)
  show ?thesis
    using collision_test_before_advance [OF h] h a b c d m by simp
qed


section \<open>Pause\<close>

text \<open>
  Claim C2, as stated: while the game is paused, climb events and iterations leave the
  bird's \<open>y\<close>, the bird's \<open>msec_to_climb\<close>, the pipes, the score and the frame counter
  unchanged. It fails for \<open>msec_to_climb\<close>: a mouse click in a paused iteration sets
  the timer to \<open>CLIMB_DURATION\<close>.
\<close>

theorem pause_climb_counterexample:
  "paused paused_game
   \<and> msec_to_climb (bird paused_game) = 0
   \<and> paused (tick climb_input paused_game)
   \<and> msec_to_climb (bird (tick climb_input paused_game)) = 333.3
   \<and> msec_to_climb (bird (tick climb_input paused_game)) \<noteq> msec_to_climb (bird paused_game)"
  unfolding tick_climb_paused
  by (simp add: paused_game_def passing_game_def CLIMB_DURATION_def)

text \<open>
  Claim C2, amended. From a paused game that is not over, any sequence of iterations
  whose events contain no quit event and no pause toggle (climb events and other events
  only) leaves the bird's \<open>x\<close> and \<open>y\<close>, the deque of pipes with every pipe's \<open>x\<close>
  and flag, the score, the frame counter and the pause flag unchanged. The bird's
  \<open>msec_to_climb\<close> is unchanged when none of the events is a climb event, and is
  \<open>CLIMB_DURATION\<close> when one is.
\<close>

theorem pause_freeze:
  assumes "paused g" and "\<not> done_flag g"
    and "list_all (\<lambda>inp. list_all (\<lambda>e. \<not> is_quit e \<and> \<not> is_pause e) (events inp)) inps"
  shows "main_loop inps g =
     g\<lparr>bird := (bird g)\<lparr>msec_to_climb :=
          (if list_ex (\<lambda>inp. list_ex is_climb (events inp)) inps then CLIMB_DURATION
           else msec_to_climb (bird g))\<rparr>\<rparr>"
  using assms
proof (induction inps arbitrary: g)
  case Nil
  then show ?case by simp
next
  case (Cons inp inps)
  let ?g' = "tick inp g"
  have q: "list_all (\<lambda>e. \<not> is_quit e \<and> \<not> is_pause e) (events inp)"
    using Cons.prems(3) by simp
  have t: "?g' =
     g\<lparr>bird := (bird g)\<lparr>msec_to_climb :=
          (if list_ex is_climb (events inp) then CLIMB_DURATION else msec_to_climb (bird g))\<rparr>\<rparr>"
    using Cons.prems(1) q by (rule tick_paused_quiet)
  have p: "paused ?g'" and d: "\<not> done_flag ?g'"
    using Cons.prems(1,2) by (simp_all add: t)
  have r: "list_all (\<lambda>inp. list_all (\<lambda>e. \<not> is_quit e \<and> \<not> is_pause e) (events inp)) inps"
    using Cons.prems(3) by simp
  have "main_loop (inp # inps) g = main_loop inps ?g'"
    using Cons.prems(2) by simp
  also have "\<dots> =
     ?g'\<lparr>bird := (bird ?g')\<lparr>msec_to_climb :=
          (if list_ex (\<lambda>inp. list_ex is_climb (events inp)) inps then CLIMB_DURATION
           else msec_to_climb (bird ?g'))\<rparr>\<rparr>"
    using p d r by (rule Cons.IH)
  also have "\<dots> =
     g\<lparr>bird := (bird g)\<lparr>msec_to_climb :=
          (if list_ex (\<lambda>inp. list_ex is_climb (events inp)) (inp # inps) then CLIMB_DURATION
           else msec_to_climb (bird g))\<rparr>\<rparr>"
    by (simp add: t)
  finally show ?case .
qed

text \<open>From \<open>paused_game\<close>: a click and an idle iteration change the timer only; two
  idle iterations change nothing.\<close>

theorem pause_freeze_witness:
  "paused paused_game \<and> \<not> done_flag paused_game
   \<and> main_loop [climb_input, idle_input] paused_game =
       paused_game\<lparr>bird := \<lparr>bird_x = 50, bird_y = 240, msec_to_climb = CLIMB_DURATION\<rparr>\<rparr>
   \<and> main_loop [idle_input, idle_input] paused_game = paused_game"
proof -
  have p: "paused paused_game" and d: "\<not> done_flag paused_game"
    by (simp_all add: paused_game_def passing_game_def)
  have q1: "list_all (\<lambda>inp. list_all (\<lambda>e. \<not> is_quit e \<and> \<not> is_pause e) (events inp))
      [climb_input, idle_input]"
    by (simp add: climb_input_def idle_input_def is_quit_def is_pause_def)
  have q2: "list_all (\<lambda>inp. list_all (\<lambda>e. \<not> is_quit e \<and> \<not> is_pause e) (events inp))
      [idle_input, idle_input]"
    by (simp add: idle_input_def)
  show ?thesis
    using pause_freeze [OF p d q1] pause_freeze [OF p d q2] p d
    by (simp add: climb_input_def idle_input_def is_climb_def paused_game_def passing_game_def)
qed


section \<open>The end of the loop\<close>

text \<open>
  Claim C1, as stated: once \<open>done\<close> is set, by a quit event or by the collision test,
  nothing of the simulation changes any more in that iteration, and the loop reports
  the score of that moment. It fails on both ways into the final state. After the quit
  event of \<open>quit_input\<close> in \<open>passing_game\<close> the score is 0, the frame counter 199, the
  pipes at -30 and 510 and the bird at 240; the iteration ends with score 1, frame
  counter 200, pipes at -33 and 507 and the bird at 243, and 1 is reported. The same
  happens in the very first iteration from the initial state. And when the collision
  test sets \<open>done\<close> in the second idle iteration from \<open>low_game\<close> (bird at 482, frame
  counter 101), that iteration still ends with the bird at 485 and frame counter 102.
\<close>

theorem over_same_tick_counterexample:
  "done_flag (after_events quit_input passing_game)
   \<and> score (after_events quit_input passing_game) = 0
   \<and> frame_clock (after_events quit_input passing_game) = 199
   \<and> map pipe_x (pipes (after_events quit_input passing_game)) = [- 30, 510]
   \<and> bird_y (bird (after_events quit_input passing_game)) = 240
   \<and> score (tick quit_input passing_game) = 1
   \<and> frame_clock (tick quit_input passing_game) = 200
   \<and> map pipe_x (pipes (tick quit_input passing_game)) = [- 33, 507]
   \<and> bird_y (bird (tick quit_input passing_game)) = 243
   \<and> report (main_loop [quit_input] passing_game) = Some 1
   \<and> frame_clock (after_events quit_input initial_game) = 0
   \<and> map pipe_x (pipes (after_events quit_input initial_game)) = [567]
   \<and> frame_clock (tick quit_input initial_game) = 1
   \<and> map pipe_x (pipes (tick quit_input initial_game)) = [564]
   \<and> done_flag (check_collisions no_collision (tick idle_input low_game))
   \<and> bird_y (bird (check_collisions no_collision (tick idle_input low_game))) = 482
   \<and> frame_clock (check_collisions no_collision (tick idle_input low_game)) = 101
   \<and> bird_y (bird (tick idle_input (tick idle_input low_game))) = 485
   \<and> frame_clock (tick idle_input (tick idle_input low_game)) = 102"
proof -
  have a: "done_flag (after_events quit_input passing_game)
   \<and> score (after_events quit_input passing_game) = 0
   \<and> frame_clock (after_events quit_input passing_game) = 199
   \<and> map pipe_x (pipes (after_events quit_input passing_game)) = [- 30, 510]
   \<and> bird_y (bird (after_events quit_input passing_game)) = 240"
    unfolding after_quit_passing by (simp add: passing_game_def)
  have b: "score (tick quit_input passing_game) = 1
   \<and> frame_clock (tick quit_input passing_game) = 200
   \<and> map pipe_x (pipes (tick quit_input passing_game)) = [- 33, 507]
   \<and> bird_y (bird (tick quit_input passing_game)) = 243"
    unfolding tick_quit_passing by simp
  have "main_loop [quit_input] passing_game = tick quit_input passing_game"
    by (simp add: passing_game_def)
  then have c: "report (main_loop [quit_input] passing_game) = Some 1"
    unfolding tick_quit_passing by (simp add: report_def)
  have x: "pipe_x (PipePair_init 0) = 567"
    by (simp add: PipePair_init_def PipePair_body_pieces_def Let_def game_consts)
  have d: "frame_clock (after_events quit_input initial_game) = 0
   \<and> map pipe_x (pipes (after_events quit_input initial_game)) = [567]"
    unfolding after_quit_initial using x by (simp add: initial_game_def)
  have e: "done_flag (check_collisions no_collision (tick idle_input low_game))
   \<and> bird_y (bird (check_collisions no_collision (tick idle_input low_game))) = 482
   \<and> frame_clock (check_collisions no_collision (tick idle_input low_game)) = 101"
    unfolding tick_idle_low by (simp add: check_collisions_def hits_def game_consts)
  have f: "bird_y (bird (tick idle_input (tick idle_input low_game))) = 485
   \<and> frame_clock (tick idle_input (tick idle_input low_game)) = 102"
    unfolding tick_idle_low_twice by simp
  show ?thesis using a b c d tick_quit_initial e f by simp
qed

text \<open>
  Claim C1, amended. Once \<open>done\<close> is set in an iteration (by a quit event or by the
  collision test), the loop runs no further iteration, whatever input is still to
  come, and reports the score as it is at the end of that iteration. If the game is
  paused after the events of that iteration, the iteration ends right there and
  nothing changes after the events. Otherwise the rest of that iteration still runs
  once: the frame counter goes up by one, the pipes that left the window are removed
  and the others move left by 3 pixels, the bird is updated for one frame, and the
  score goes up by the number of pipes the scoring loop counts.
\<close>

theorem over_ends_loop:
  assumes "\<not> done_flag g" and "done_flag (tick inp g)"
  shows "main_loop (inp # inps) g = tick inp g
       \<and> report (main_loop (inp # inps) g) = Some (score (tick inp g))
       \<and> (if paused (after_events inp g) then tick inp g = after_events inp g
          else frame_clock (tick inp g) = frame_clock g + 1
             \<and> bird (tick inp g) = Bird_update 1 (bird (after_events inp g))
             \<and> map pipe_x (pipes (tick inp g)) =
                 map (\<lambda>p. pipe_x p - 3) (drop_invisible (pipes (after_events inp g)))
             \<and> score (tick inp g) =
                 score g + int (length (filter (scorable (bird_x (bird g)))
                   (map (PipePair_update 1) (drop_invisible (pipes (after_events inp g)))))))"
proof -
  have m: "main_loop (inp # inps) g = tick inp g"
    using assms by (simp add: main_loop_done)
  have r: "report (main_loop (inp # inps) g) = Some (score (tick inp g))"
    unfolding m using assms(2) by (simp add: report_def)
  show ?thesis
  proof (cases "paused (after_events inp g)")
    case True
    then show ?thesis using m r by (simp add: tick_paused)
  next
    case False
    then show ?thesis
      using m r tick_running_fields(1-4) [OF False] by simp
  qed
qed

text \<open>The quit event in \<open>passing_game\<close>, with two more iterations of input that are
  never run: 1 is reported.\<close>

theorem over_ends_loop_witness:
  "\<not> done_flag passing_game \<and> done_flag (tick quit_input passing_game)
   \<and> main_loop [quit_input, idle_input, idle_input] passing_game = tick quit_input passing_game
   \<and> report (main_loop [quit_input, idle_input, idle_input] passing_game) = Some 1
   \<and> frame_clock (tick quit_input passing_game) = 200"
proof -
  have h1: "\<not> done_flag passing_game"
    by (simp add: passing_game_def)
  have h2: "done_flag (tick quit_input passing_game)"
    unfolding tick_quit_passing by simp
  have s: "score (tick quit_input passing_game) = 1"
    and f: "frame_clock (tick quit_input passing_game) = 200"
    unfolding tick_quit_passing by simp_all
  show ?thesis
    using over_ends_loop [OF h1 h2, of "[idle_input, idle_input]"] h1 h2 s f by simp
qed

end
